theory Spec2Isabelle
  imports Complex_Main
begin

section \<open>Strings and numbers of the source language\<close>

text \<open>
  A TypeScript string is the sequence of its UTF-16 code units, so \<open>length\<close> is
  \<open>.length\<close> and \<open>s ! i\<close> the code unit at index \<open>i\<close>. A TypeScript number is
  modelled as a real: the rounding of double arithmetic is abstracted, its values
  \<open>NaN\<close> and \<open>undefined\<close> are written out as \<open>None\<close> where the code can produce them.
\<close>

type_synonym jschar = nat
type_synonym jsstring = "jschar list"

definition lit :: "string \<Rightarrow> jsstring" where
  "lit s = map of_char s"

text \<open>The class \<open>\w\<close> of a regular expression without the \<open>u\<close> flag: \<open>[A-Za-z0-9_]\<close>.\<close>

definition isWordChar :: "jschar \<Rightarrow> bool" where
  "isWordChar c = ((48 \<le> c \<and> c \<le> 57) \<or> (65 \<le> c \<and> c \<le> 90) \<or> c = 95 \<or> (97 \<le> c \<and> c \<le> 122))"

text \<open>
  The class \<open>\s\<close>, which is also what \<open>trim()\<close> strips: the white space and line
  terminator code points (TAB, LF, VT, FF, CR, SP, NBSP, U+1680, U+2000 to U+200A, U+2028,
  U+2029, U+202F, U+205F, U+3000, U+FEFF).
\<close>

definition isWhiteSpace :: "jschar \<Rightarrow> bool" where
  "isWhiteSpace c = ((9 \<le> c \<and> c \<le> 13) \<or> c = 32 \<or> c = 160 \<or> c = 5760 \<or> (8192 \<le> c \<and> c \<le> 8202)
      \<or> c = 8232 \<or> c = 8233 \<or> c = 8239 \<or> c = 8287 \<or> c = 12288 \<or> c = 65279)"

text \<open>The classes \<open>[.!?]\<close>, \<open>[,;:]\<close> and \<open>[!?]\<close>.\<close>

definition isSentenceEnd :: "jschar \<Rightarrow> bool" where
  "isSentenceEnd c = (c = 46 \<or> c = 33 \<or> c = 63)"

definition isClauseSep :: "jschar \<Rightarrow> bool" where
  "isClauseSep c = (c = 44 \<or> c = 59 \<or> c = 58)"

definition isBangOrQuery :: "jschar \<Rightarrow> bool" where
  "isBangOrQuery c = (c = 33 \<or> c = 63)"

text \<open>
  Case folding of the \<open>i\<close> flag (without \<open>u\<close>): a code unit is compared by its upper
  case, and a code unit from 128 on whose upper case is ASCII stays as it is. All patterns
  of the source are ASCII letters, so only the ASCII letters fold onto them.
\<close>

definition canonicalize :: "jschar \<Rightarrow> jschar" where
  "canonicalize c = (if 97 \<le> c \<and> c \<le> 122 then c - 32 else c)"

text \<open>
  \<open>toLowerCase()\<close>: an ASCII capital becomes its small letter. Of the code units from 128
  on, only the Kelvin sign U+212A (to \<open>k\<close>) and the dotted capital I U+0130 (to \<open>i\<close>
  followed by U+0307) have ASCII in their lower case; every other one is mapped to code
  units from 128 on and is kept as it is, which no search for an ASCII keyword can tell
  apart.
\<close>

definition lowerUnit :: "jschar \<Rightarrow> jsstring" where
  "lowerUnit c = (if 65 \<le> c \<and> c \<le> 90 then [c + 32]
                  else if c = 8490 then [107]
                  else if c = 304 then [105, 775]
                  else [c])"

definition toLowerCase :: "jsstring \<Rightarrow> jsstring" where
  "toLowerCase s = concat (map lowerUnit s)"

text \<open>\<open>s.includes(k)\<close>: \<open>k\<close> occurs in \<open>s\<close> at some index.\<close>

fun includesStr :: "jsstring \<Rightarrow> jsstring \<Rightarrow> bool" where
  "includesStr [] k = (k = [])"
| "includesStr (c # cs) k = (take (length k) (c # cs) = k \<or> includesStr cs k)"

text \<open>\<open>s.trim()\<close>.\<close>

definition trim :: "jsstring \<Rightarrow> jsstring" where
  "trim s = rev (dropWhile isWhiteSpace (rev (dropWhile isWhiteSpace s)))"

text \<open>
  \<open>s.split(/[...]+/)\<close> for a character class: the pieces between the maximal runs of
  separator characters. A separator at the start or at the end gives an empty first or last
  piece, and the empty string gives one empty piece. \<open>acc\<close> holds the current piece,
  reversed.
\<close>

function splitPlusFrom :: "(jschar \<Rightarrow> bool) \<Rightarrow> jsstring \<Rightarrow> jsstring \<Rightarrow> jsstring list" where
  "splitPlusFrom sep acc [] = [rev acc]"
| "splitPlusFrom sep acc (c # cs) =
     (if sep c then rev acc # splitPlusFrom sep [] (dropWhile sep cs)
      else splitPlusFrom sep (c # acc) cs)"
  by pat_completeness auto
termination
  by (relation "measure (\<lambda>(sep, acc, s). length s)")
     (auto simp: le_imp_less_Suc length_dropWhile_le)

definition splitPlus :: "(jschar \<Rightarrow> bool) \<Rightarrow> jsstring \<Rightarrow> jsstring list" where
  "splitPlus sep s = splitPlusFrom sep [] s"

text \<open>\<open>s.split(/[...]/)\<close> for a character class: every separator character ends a piece.\<close>

fun splitCharFrom :: "(jschar \<Rightarrow> bool) \<Rightarrow> jsstring \<Rightarrow> jsstring \<Rightarrow> jsstring list" where
  "splitCharFrom sep acc [] = [rev acc]"
| "splitCharFrom sep acc (c # cs) =
     (if sep c then rev acc # splitCharFrom sep [] cs
      else splitCharFrom sep (c # acc) cs)"

definition splitChar :: "(jschar \<Rightarrow> bool) \<Rightarrow> jsstring \<Rightarrow> jsstring list" where
  "splitChar sep s = splitCharFrom sep [] s"

subsection \<open>Global regular expression matches\<close>

text \<open>
  A matcher tries a pattern at one index of the text and returns the end index of the
  match. \<open>(text.match(/.../g) || []).length\<close> searches from index 0 for the first index
  with a match, counts it, and goes on from the end of the match (one further when the
  match is empty) until the index passes the end of the text.
\<close>

type_synonym matcher = "jsstring \<Rightarrow> nat \<Rightarrow> nat option"

function countMatches :: "matcher \<Rightarrow> jsstring \<Rightarrow> nat \<Rightarrow> nat" where
  "countMatches m s q =
     (if length s < q then 0
      else (case m s q of
              None \<Rightarrow> countMatches m s (q + 1)
            | Some e \<Rightarrow> 1 + countMatches m s (max e (q + 1))))"
  by pat_completeness auto
termination
  by (relation "measure (\<lambda>(m, s, q). length s + 1 - q)") auto

declare countMatches.simps [simp del]

definition matchCount :: "matcher \<Rightarrow> jsstring \<Rightarrow> nat" where
  "matchCount m s = countMatches m s 0"

text \<open>The assertion \<open>\b\<close> at index \<open>e\<close>: exactly one of the code units before and at
  \<open>e\<close> is a word character; there is none before index 0 and none at the end.\<close>

definition wordCharAt :: "jsstring \<Rightarrow> int \<Rightarrow> bool" where
  "wordCharAt s e = (0 \<le> e \<and> e < int (length s) \<and> isWordChar (s ! nat e))"

definition wordBoundary :: "jsstring \<Rightarrow> nat \<Rightarrow> bool" where
  "wordBoundary s e = (wordCharAt s (int e - 1) \<noteq> wordCharAt s (int e))"

definition matchLiteralCI :: "jsstring \<Rightarrow> jsstring \<Rightarrow> nat \<Rightarrow> bool" where
  "matchLiteralCI w s q =
     (q + length w \<le> length s \<and> map canonicalize (take (length w) (drop q s)) = map canonicalize w)"

text \<open>\<open>/\b(w1|w2|...)\b/gi\<close>: the first alternative, in order, that matches between two
  word boundaries.\<close>

definition matchWords :: "jsstring list \<Rightarrow> matcher" where
  "matchWords alts s q =
     (if wordBoundary s q
      then (case filter (\<lambda>w. matchLiteralCI w s q \<and> wordBoundary s (q + length w)) alts of
              [] \<Rightarrow> None
            | w # _ \<Rightarrow> Some (q + length w))
      else None)"

text \<open>\<open>/[...]{2,}/g\<close>: a maximal run of at least two characters of the class.\<close>

definition matchRun2 :: "(jschar \<Rightarrow> bool) \<Rightarrow> matcher" where
  "matchRun2 cls s q =
     (let run = takeWhile cls (drop q s)
      in if 2 \<le> length run then Some (q + length run) else None)"

text \<open>\<open>/[^\w\s]/g\<close>: one code unit that is neither a word character nor white space.\<close>

definition matchSymbol :: matcher where
  "matchSymbol s q =
     (if q < length s \<and> \<not> isWordChar (s ! q) \<and> \<not> isWhiteSpace (s ! q) then Some (q + 1) else None)"

text \<open>\<open>new RegExp(`\\b${word}\\b`, 'gi')\<close> and the number of its matches in the text.\<close>

definition countWord :: "string \<Rightarrow> jsstring \<Rightarrow> nat" where
  "countWord word text = matchCount (matchWords [lit word]) text"

text \<open>
  The text of a number in a template literal. An integer prints as its decimal digits
  (below \<open>10^21\<close>, which covers every integer the code prints). The digits of a number
  with a fraction are those of the double and are not determined by the real it stands
  for, so their printer \<open>printFrac\<close> is a parameter of the model.
\<close>

fun digitsOf :: "nat \<Rightarrow> jsstring" where
  "digitsOf n = (if n < 10 then [48 + n] else digitsOf (n div 10) @ [48 + n mod 10])"

declare digitsOf.simps [simp del]

definition intToString :: "int \<Rightarrow> jsstring" where
  "intToString i = (if i < 0 then 45 # digitsOf (nat (- i)) else digitsOf (nat i))"

definition numToString :: "(real \<Rightarrow> jsstring) \<Rightarrow> real \<Rightarrow> jsstring" where
  "numToString printFrac v = (if of_int \<lfloor>v\<rfloor> = v then intToString \<lfloor>v\<rfloor> else printFrac v)"

text \<open>\<open>xs[i]\<close> for an integer index: \<open>undefined\<close> (\<open>None\<close>) outside the array.\<close>

definition arrayGet :: "'a list \<Rightarrow> int \<Rightarrow> 'a option" where
  "arrayGet xs i = (if 0 \<le> i \<and> i < int (length xs) then Some (xs ! nat i) else None)"

text \<open>\<open>a % b\<close> on integers, \<open>b\<close> not 0: the remainder has the sign of \<open>a\<close>.\<close>

definition jsRem :: "int \<Rightarrow> int \<Rightarrow> int" where
  "jsRem a b = sgn a * (\<bar>a\<bar> mod \<bar>b\<bar>)"

text \<open>\<open>xs.join(sep)\<close>.\<close>

fun joinStr :: "jsstring \<Rightarrow> jsstring list \<Rightarrow> jsstring" where
  "joinStr sep [] = []"
| "joinStr sep [x] = x"
| "joinStr sep (x # y # ys) = x @ sep @ joinStr sep (y # ys)"

section \<open>The analyzer (\<open>GlyphAnalyzer\<close>)\<close>

record glyphData =
  shape :: "jsstring option"
  frequency :: real
  color :: jsstring
  complexity :: int

record ResonanceAnalysis =
  cognitiveLoad :: real
  emotionalIntensity :: real
  symbolicDensity :: real
  temporalFlow :: real
  emergencePoints :: "real list"
  meaningSignature :: jsstring
  glyphData :: glyphData

definition calculateCognitiveLoad :: "jsstring \<Rightarrow> real" where
  "calculateCognitiveLoad text =
     (let words = splitPlus isWhiteSpace text;
          avgWordLength = real (foldl (\<lambda>sum word. sum + length word) 0 words) / real (length words);
          complexWords = length (filter (\<lambda>word. length word > 6) words);
          sentenceComplexity =
            foldl (\<lambda>sum sentence. sum + length (splitChar isClauseSep sentence)) 0
              (splitPlus isSentenceEnd text)
      in min 100 (avgWordLength * 10 + real complexWords * 2 + real sentenceComplexity))"

definition emotionalWords :: "string list" where
  "emotionalWords =
     [''love'', ''hate'', ''fear'', ''joy'', ''anger'', ''sadness'', ''excitement'', ''anxiety'',
      ''passion'', ''rage'', ''bliss'', ''terror'', ''ecstasy'', ''despair'', ''hope'', ''dread'']"

definition intensifiers :: "string list" where
  "intensifiers = [''very'', ''extremely'', ''incredibly'', ''absolutely'', ''completely'']"

definition calculateEmotionalIntensity :: "jsstring \<Rightarrow> real" where
  "calculateEmotionalIntensity text =
     (let punctuationIntensity = matchCount (matchRun2 isBangOrQuery) text * 10;
          emotionalScore = foldl (\<lambda>score word. score + countWord word text * 15) 0 emotionalWords;
          intensifierScore = foldl (\<lambda>score word. score + countWord word text * 5) 0 intensifiers
      in min 100 (real (emotionalScore + intensifierScore + punctuationIntensity)))"

definition metaphorWords :: "string list" where
  "metaphorWords = [''like'', ''as'', ''seems'', ''appears'', ''resembles'']"

definition abstractWords :: "string list" where
  "abstractWords =
     [''consciousness'', ''reality'', ''existence'', ''meaning'', ''purpose'', ''soul'',
      ''spirit'', ''essence'', ''truth'', ''wisdom'', ''enlightenment'', ''transcendence'']"

definition calculateSymbolicDensity :: "jsstring \<Rightarrow> real" where
  "calculateSymbolicDensity text =
     (let symbols = matchCount matchSymbol text;
          metaphors = matchCount (matchWords (map lit metaphorWords)) text;
          abstractScore = foldl (\<lambda>score word. score + countWord word text * 20) 0 abstractWords
      in min 100 (real (symbols * 2 + metaphors * 10 + abstractScore)))"

definition timeWords :: "string list" where
  "timeWords = [''now'', ''then'', ''before'', ''after'', ''during'', ''while'', ''when'', ''until'']"

definition transitionWords :: "string list" where
  "transitionWords = [''however'', ''therefore'', ''meanwhile'', ''consequently'', ''furthermore'']"

definition calculateTemporalFlow :: "jsstring \<Rightarrow> real" where
  "calculateTemporalFlow text =
     (let timeScore = foldl (\<lambda>score word. score + countWord word text * 8) 0 timeWords;
          transitionScore = foldl (\<lambda>score word. score + countWord word text * 12) 0 transitionWords
      in min 100 (real (timeScore + transitionScore)))"

text \<open>
  The \<open>forEach\<close> of \<open>findEmergencePoints\<close>: \<open>n\<close> is \<open>sentences.length\<close>, \<open>index\<close>
  the index of the first of the remaining sentences, the result the values pushed.
\<close>

fun emergenceLoop :: "nat \<Rightarrow> nat \<Rightarrow> jsstring list \<Rightarrow> real list" where
  "emergenceLoop n index [] = []"
| "emergenceLoop n index (sentence # rest) =
     (let intensity = calculateEmotionalIntensity sentence;
          complexity = calculateCognitiveLoad sentence
      in (if intensity > 60 \<or> complexity > 70 then [real index / real n * 100] else [])
         @ emergenceLoop n (index + 1) rest)"

definition findEmergencePoints :: "jsstring \<Rightarrow> real list" where
  "findEmergencePoints text =
     (let sentences = filter (\<lambda>s. length (trim s) > 0) (splitPlus isSentenceEnd text)
      in emergenceLoop (length sentences) 0 sentences)"

definition themeKeywords :: "(string \<times> string list) list" where
  "themeKeywords =
     [(''transformation'', [''change'', ''transform'', ''evolve'', ''become'', ''shift'']),
      (''connection'', [''together'', ''bond'', ''unite'', ''connect'', ''relationship'']),
      (''discovery'', [''find'', ''discover'', ''reveal'', ''uncover'', ''explore'']),
      (''conflict'', [''struggle'', ''fight'', ''battle'', ''oppose'', ''resist'']),
      (''growth'', [''grow'', ''develop'', ''expand'', ''progress'', ''advance'']),
      (''mystery'', [''unknown'', ''secret'', ''hidden'', ''mysterious'', ''enigma''])]"

definition hasKeyword :: "jsstring \<Rightarrow> string list \<Rightarrow> bool" where
  "hasKeyword text keywords =
     list_ex (\<lambda>keyword. includesStr (toLowerCase text) (toLowerCase (lit keyword))) keywords"

definition extractThemes :: "jsstring \<Rightarrow> jsstring list" where
  "extractThemes text =
     (let themes = map (\<lambda>(theme, keywords). lit theme)
                     (filter (\<lambda>(theme, keywords). hasKeyword text keywords) themeKeywords)
      in if length themes > 0 then themes else [lit ''existence''])"

definition moodKeywords :: "(string \<times> string list) list" where
  "moodKeywords =
     [(''contemplative'', [''think'', ''ponder'', ''reflect'', ''consider'', ''wonder'']),
      (''energetic'', [''energy'', ''power'', ''force'', ''dynamic'', ''vibrant'']),
      (''melancholic'', [''sad'', ''sorrow'', ''loss'', ''grief'', ''melancholy'']),
      (''euphoric'', [''joy'', ''bliss'', ''ecstasy'', ''elation'', ''rapture'']),
      (''mysterious'', [''mystery'', ''enigma'', ''puzzle'', ''riddle'', ''secret''])]"

fun moodLoop :: "jsstring \<Rightarrow> (string \<times> string list) list \<Rightarrow> jsstring" where
  "moodLoop text [] = lit ''neutral''"
| "moodLoop text ((mood, keywords) # rest) =
     (if hasKeyword text keywords then lit mood else moodLoop text rest)"

definition extractMood :: "jsstring \<Rightarrow> jsstring" where
  "extractMood text = moodLoop text moodKeywords"

definition archetypes :: "string list" where
  "archetypes =
     [''The Seeker'', ''The Sage'', ''The Creator'', ''The Rebel'', ''The Hero'',
      ''The Lover'', ''The Jester'', ''The Caregiver'', ''The Ruler'', ''The Magician'']"

text \<open>The index \<open>textLength % archetypes.length\<close> is below the length of the array.\<close>

definition extractArchetype :: "jsstring \<Rightarrow> jsstring" where
  "extractArchetype text = lit (archetypes ! (length text mod length archetypes))"

definition generateMeaningSignature :: "jsstring \<Rightarrow> jsstring" where
  "generateMeaningSignature text =
     (let themes = extractThemes text;
          mood = extractMood text;
          archetype = extractArchetype text
      in archetype @ lit '' resonance with '' @ mood @ lit '' undertones, exploring themes of ''
         @ joinStr (lit '', '') themes)"

definition generateGlyphColor :: "(real \<Rightarrow> jsstring) \<Rightarrow> real \<Rightarrow> real \<Rightarrow> real \<Rightarrow> jsstring" where
  "generateGlyphColor printFrac cognitive emotional symbolic =
     (let hue = \<lfloor>(cognitive + emotional + symbolic) / 3 * 3.6\<rfloor>;
          saturation = max 50 emotional;
          lightness = max 30 (min 70 (100 - cognitive))
      in lit ''hsl('' @ intToString hue @ lit '', '' @ numToString printFrac saturation @ lit ''%, ''
         @ numToString printFrac lightness @ lit ''%)'')"

definition shapes :: "string list" where
  "shapes = [''circle'', ''triangle'', ''square'', ''hexagon'', ''star'', ''spiral'']"

definition generateGlyphData :: "(real \<Rightarrow> jsstring) \<Rightarrow> real \<Rightarrow> real \<Rightarrow> real \<Rightarrow> glyphData" where
  "generateGlyphData printFrac cognitive emotional symbolic =
     (let shapeIndex = jsRem \<lfloor>(cognitive + emotional) / 33\<rfloor> (int (length shapes))
      in \<lparr> shape = map_option lit (arrayGet shapes shapeIndex),
           frequency = max 0.5 (emotional / 100),
           color = generateGlyphColor printFrac cognitive emotional symbolic,
           complexity = \<lfloor>(cognitive + symbolic) / 20\<rfloor> \<rparr>)"

definition getDefaultAnalysis :: ResonanceAnalysis where
  "getDefaultAnalysis =
     \<lparr> cognitiveLoad = 50,
       emotionalIntensity = 30,
       symbolicDensity = 40,
       temporalFlow = 35,
       emergencePoints = [25, 75],
       meaningSignature = lit ''Neutral resonance with contemplative undertones'',
       glyphData = \<lparr> shape = Some (lit ''circle''), frequency = 0.5, color = lit ''#8b5cf6'',
                     complexity = 3 \<rparr> \<rparr>"

text \<open>
  \<open>analyzeText\<close>. No operation of its \<open>try\<close> block throws on a string (the splits, the
  matches and the arithmetic are total, the divisor \<open>words.length\<close> is at least 1), so the
  \<open>catch\<close> branch, which would return \<open>getDefaultAnalysis\<close>, is never entered and the
  result is the one built in the \<open>try\<close> block.
\<close>

definition analyzeText :: "(real \<Rightarrow> jsstring) \<Rightarrow> jsstring \<Rightarrow> ResonanceAnalysis" where
  "analyzeText printFrac text =
     (let cognitiveLoad = calculateCognitiveLoad text;
          emotionalIntensity = calculateEmotionalIntensity text;
          symbolicDensity = calculateSymbolicDensity text;
          temporalFlow = calculateTemporalFlow text;
          emergencePoints = findEmergencePoints text;
          meaningSignature = generateMeaningSignature text;
          glyphData = generateGlyphData printFrac cognitiveLoad emotionalIntensity symbolicDensity
      in \<lparr> cognitiveLoad = cognitiveLoad,
           emotionalIntensity = emotionalIntensity,
           symbolicDensity = symbolicDensity,
           temporalFlow = temporalFlow,
           emergencePoints = emergencePoints,
           meaningSignature = meaningSignature,
           glyphData = glyphData \<rparr>)"

section \<open>Colour conversion (\<open>hexToRgba\<close>)\<close>

text \<open>\<open>s.slice(a, b)\<close> for indices \<open>0 \<le> a\<close> and \<open>0 \<le> b\<close>; the indices are cut at the
  length of the string.\<close>

definition slice :: "jsstring \<Rightarrow> nat \<Rightarrow> nat \<Rightarrow> jsstring" where
  "slice s a b = take (b - a) (drop a s)"

definition hexDigit :: "jschar \<Rightarrow> nat option" where
  "hexDigit c = (if 48 \<le> c \<and> c \<le> 57 then Some (c - 48)
                 else if 97 \<le> c \<and> c \<le> 102 then Some (c - 87)
                 else if 65 \<le> c \<and> c \<le> 70 then Some (c - 55)
                 else None)"

definition hexValue :: "jschar \<Rightarrow> nat" where
  "hexValue c = (case hexDigit c of Some d \<Rightarrow> d | None \<Rightarrow> 0)"

text \<open>
  \<open>parseInt(s, 16)\<close>: leading white space is skipped, then one sign, then one \<open>0x\<close> or
  \<open>0X\<close>; the longest run of hexadecimal digits that follows is the number, and \<open>NaN\<close>
  (\<open>None\<close>) is returned when that run is empty.
\<close>

definition parseInt16 :: "jsstring \<Rightarrow> int option" where
  "parseInt16 input =
     (let s = dropWhile isWhiteSpace input;
          sign = (if take 1 s = [45] then - 1 else 1);
          s1 = (if take 1 s = [43] \<or> take 1 s = [45] then drop 1 s else s);
          s2 = (if take 2 s1 = [48, 120] \<or> take 2 s1 = [48, 88] then drop 2 s1 else s1);
          z = takeWhile (\<lambda>c. hexDigit c \<noteq> None) s2
      in if z = [] then None
         else Some (sign * int (foldl (\<lambda>acc c. acc * 16 + hexValue c) 0 z)))"

definition numberOrNaN :: "int option \<Rightarrow> jsstring" where
  "numberOrNaN v = (case v of None \<Rightarrow> lit ''NaN'' | Some i \<Rightarrow> intToString i)"

text \<open>\<open>hexToRgba\<close>, the same method in \<open>GlyphRenderer\<close> and in \<open>Particle\<close>.\<close>

definition hexToRgba :: "(real \<Rightarrow> jsstring) \<Rightarrow> jsstring \<Rightarrow> real \<Rightarrow> jsstring" where
  "hexToRgba printFrac hex alpha =
     (let r = parseInt16 (slice hex 1 3);
          g = parseInt16 (slice hex 3 5);
          b = parseInt16 (slice hex 5 7)
      in lit ''rgba('' @ numberOrNaN r @ lit '', '' @ numberOrNaN g @ lit '', '' @ numberOrNaN b
         @ lit '', '' @ numToString printFrac alpha @ lit '')'')"

section \<open>The scalar field (\<open>ResonanceField\<close>)\<close>

datatype jsError = TypeError

record ResonanceField =
  width :: real
  height :: real
  field :: "real list list"

definition gridSize :: real where
  "gridSize = 20"

text \<open>
  \<open>initializeField\<close>: the two counting loops run \<open>rows\<close> and \<open>cols\<close> times, not at all
  when the bound is 0 or negative, and store 0 in every cell.
\<close>

definition initializeField :: "ResonanceField \<Rightarrow> ResonanceField" where
  "initializeField rf =
     (let cols = \<lceil>width rf / gridSize\<rceil>;
          rows = \<lceil>height rf / gridSize\<rceil>
      in rf\<lparr>field := replicate (nat rows) (replicate (nat cols) 0)\<rparr>)"

definition newResonanceField :: "real \<Rightarrow> real \<Rightarrow> ResonanceField" where
  "newResonanceField w h = initializeField \<lparr>width = w, height = h, field = []\<rparr>"

definition resize :: "ResonanceField \<Rightarrow> real \<Rightarrow> real \<Rightarrow> ResonanceField" where
  "resize rf w h = initializeField (rf\<lparr>width := w, height := h\<rparr>)"

definition cellValue :: "ResonanceAnalysis \<Rightarrow> real \<Rightarrow> real \<Rightarrow> real \<Rightarrow> nat \<Rightarrow> nat \<Rightarrow> real" where
  "cellValue analysis time centerX centerY i j =
     (let dx = real j - centerX;
          dy = real i - centerY;
          distance = sqrt (dx * dx + dy * dy);
          wave1 = sin (distance * 0.3 - time * frequency (glyphData analysis) * 2)
                    * emotionalIntensity analysis / 100;
          wave2 = cos (distance * 0.2 + time * temporalFlow analysis / 50)
                    * cognitiveLoad analysis / 100
      in (wave1 + wave2) * 0.5)"

text \<open>
  \<open>update\<close>. \<open>this.field[0].length\<close> throws a \<open>TypeError\<close> when the grid has no row.
  Row \<open>i\<close> gets new cells at the indices below \<open>cols\<close>, the length of row 0; what it has
  beyond them stays.
\<close>

definition update :: "ResonanceField \<Rightarrow> ResonanceAnalysis \<Rightarrow> real \<Rightarrow> jsError + ResonanceField" where
  "update rf analysis time =
     (case field rf of
        [] \<Rightarrow> Inl TypeError
      | row0 # _ \<Rightarrow>
          (let cols = length row0;
               rows = length (field rf);
               centerX = real cols / 2;
               centerY = real rows / 2
           in Inr (rf\<lparr>field :=
                map (\<lambda>i. map (\<lambda>j. cellValue analysis time centerX centerY i j) [0..<cols]
                          @ drop cols (field rf ! i))
                  [0..<rows]\<rparr>)))"

text \<open>What \<open>render\<close> draws: \<open>fillRect(x, y, w, h)\<close> with the fill style
  \<open>rgba(0, 255, 255, opacity)\<close>.\<close>

datatype fillRect = FillRect real real real real real

text \<open>\<open>this.field[i][j]\<close> is \<open>undefined\<close> past the end of row \<open>i\<close>; its absolute value is
  \<open>NaN\<close> and no comparison with \<open>NaN\<close> holds, so nothing is drawn for it.\<close>

definition renderCell :: "real list list \<Rightarrow> nat \<Rightarrow> nat \<Rightarrow> fillRect list" where
  "renderCell f i j =
     (if j < length (f ! i)
      then (let v = \<bar>f ! i ! j\<bar>;
                opacity = min 0.3 (v * 0.5)
            in if opacity > 0.05
               then [FillRect (real j * gridSize) (real i * gridSize) gridSize gridSize opacity]
               else [])
      else [])"

text \<open>\<open>render\<close>: the loops run over \<open>i < rows - 1\<close> and \<open>j < cols - 1\<close>.\<close>

definition render :: "ResonanceField \<Rightarrow> jsError + fillRect list" where
  "render rf =
     (case field rf of
        [] \<Rightarrow> Inl TypeError
      | row0 # _ \<Rightarrow>
          (let cols = length row0;
               rows = length (field rf)
           in Inr (concat (map (\<lambda>i. concat (map (\<lambda>j. renderCell (field rf) i j) [0..<cols - 1]))
                             [0..<rows - 1]))))"

section \<open>Particles (\<open>Particle\<close>)\<close>

text \<open>
  \<open>Math.random()\<close> is a sequence \<open>rnd\<close> of numbers in \<open>[0, 1)\<close> together with the count
  of the numbers drawn so far, which every drawing function returns advanced.
\<close>

record Particle =
  px :: real
  py :: real
  pvx :: real
  pvy :: real
  pcolor :: jsstring
  psize :: real
  life :: real
  maxLife :: real

definition newParticle :: "(nat \<Rightarrow> real) \<Rightarrow> nat \<Rightarrow> real \<Rightarrow> real \<Rightarrow> jsstring \<Rightarrow> Particle \<times> nat" where
  "newParticle rnd k x0 y0 c =
     (let m = rnd (k + 3) * 100 + 50
      in (\<lparr>px = x0, py = y0,
            pvx = (rnd k - 0.5) * 2,
            pvy = (rnd (k + 1) - 0.5) * 2,
            pcolor = c,
            psize = rnd (k + 2) * 3 + 1,
            life = m, maxLife = m\<rparr>, k + 4))"

definition respawn :: "(nat \<Rightarrow> real) \<Rightarrow> nat \<Rightarrow> Particle \<Rightarrow> Particle \<times> nat" where
  "respawn rnd k p =
     (p\<lparr>px := rnd k * 800,
        py := rnd (k + 1) * 600,
        pvx := (rnd (k + 2) - 0.5) * 2,
        pvy := (rnd (k + 3) - 0.5) * 2,
        life := maxLife p\<rparr>, k + 4)"

text \<open>\<open>Math.atan2(y, x)\<close>.\<close>

definition atan2 :: "real \<Rightarrow> real \<Rightarrow> real" where
  "atan2 y0 x0 =
     (if 0 < x0 then arctan (y0 / x0)
      else if x0 < 0 \<and> 0 \<le> y0 then arctan (y0 / x0) + pi
      else if x0 < 0 then arctan (y0 / x0) - pi
      else if 0 < y0 then pi / 2
      else if y0 < 0 then - (pi / 2)
      else 0)"

definition updateParticle ::
    "(nat \<Rightarrow> real) \<Rightarrow> nat \<Rightarrow> real \<Rightarrow> real \<Rightarrow> real \<Rightarrow> real \<Rightarrow> Particle \<Rightarrow> Particle \<times> nat" where
  "updateParticle rnd k centerX centerY freq time p =
     (let dx = centerX - px p;
          dy = centerY - py p;
          distance = sqrt (dx * dx + dy * dy);
          force = 0.001 * freq;
          p1 = (if distance > 0
                then p\<lparr>pvx := pvx p + (dx / distance) * force, pvy := pvy p + (dy / distance) * force\<rparr>
                else p);
          angle = atan2 dy dx + pi / 2;
          p2 = p1\<lparr>pvx := pvx p1 + cos angle * 0.01 * freq, pvy := pvy p1 + sin angle * 0.01 * freq\<rparr>;
          p3 = p2\<lparr>px := px p2 + pvx p2, py := py p2 + pvy p2\<rparr>;
          p4 = p3\<lparr>pvx := pvx p3 * 0.99, pvy := pvy p3 * 0.99\<rparr>;
          p5 = p4\<lparr>life := life p4 - 1\<rparr>
      in if life p5 \<le> 0 then respawn rnd k p5 else (p5, k))"

text \<open>
  \<open>initializeParticles\<close> places every new particle at
  \<open>(Math.random() * canvas.width, Math.random() * canvas.height)\<close>; the two arguments are
  drawn before the constructor draws its own four numbers.
\<close>

fun initializeLoop ::
    "(nat \<Rightarrow> real) \<Rightarrow> nat \<Rightarrow> real \<Rightarrow> real \<Rightarrow> jsstring \<Rightarrow> nat \<Rightarrow> Particle list \<times> nat" where
  "initializeLoop rnd k canvasWidth canvasHeight c 0 = ([], k)"
| "initializeLoop rnd k canvasWidth canvasHeight c (Suc n) =
     (let (p, k1) = newParticle rnd (k + 2) (rnd k * canvasWidth) (rnd (k + 1) * canvasHeight) c;
          (ps, k2) = initializeLoop rnd k1 canvasWidth canvasHeight c n
      in (p # ps, k2))"

definition initializeParticles ::
    "(nat \<Rightarrow> real) \<Rightarrow> nat \<Rightarrow> real \<Rightarrow> real \<Rightarrow> ResonanceAnalysis \<Rightarrow> Particle list \<times> nat" where
  "initializeParticles rnd k canvasWidth canvasHeight analysis =
     (let particleCount = \<lfloor>symbolicDensity analysis / 10\<rfloor> + 10
      in initializeLoop rnd k canvasWidth canvasHeight (color (glyphData analysis)) (nat particleCount))"

text \<open>
  \<open>updateAndRenderParticles\<close>, without the drawing: every particle is updated in turn,
  with the centre of the canvas as the centre of attraction.
\<close>

fun updateLoop ::
    "(nat \<Rightarrow> real) \<Rightarrow> nat \<Rightarrow> real \<Rightarrow> real \<Rightarrow> real \<Rightarrow> real \<Rightarrow> Particle list \<Rightarrow> Particle list \<times> nat" where
  "updateLoop rnd k centerX centerY freq time [] = ([], k)"
| "updateLoop rnd k centerX centerY freq time (p # ps) =
     (let (p', k1) = updateParticle rnd k centerX centerY freq time p;
          (ps', k2) = updateLoop rnd k1 centerX centerY freq time ps
      in (p' # ps', k2))"

definition updateAndRenderParticles ::
    "(nat \<Rightarrow> real) \<Rightarrow> nat \<Rightarrow> real \<Rightarrow> real \<Rightarrow> ResonanceAnalysis \<Rightarrow> real \<Rightarrow> Particle list
      \<Rightarrow> Particle list \<times> nat" where
  "updateAndRenderParticles rnd k canvasWidth canvasHeight analysis time ps =
     (let centerX = canvasWidth / 2;
          centerY = canvasHeight / 2
      in updateLoop rnd k centerX centerY (frequency (glyphData analysis)) time ps)"

section \<open>The animation loop (\<open>startAnimation\<close>, \<open>stopAnimation\<close>)\<close>

text \<open>
  The host keeps the handles of the frame callbacks that were requested and have neither
  run nor been cancelled. \<open>requestAnimationFrame\<close> gives out the next handle, counting
  from 1, \<open>cancelAnimationFrame\<close> drops a handle, and the host runs a pending callback
  after dropping its handle. The renderer keeps \<open>animationId\<close>, \<open>null\<close> being \<open>None\<close>.
\<close>

record Scheduler =
  animationId :: "nat option"
  pending :: "nat list"
  lastHandle :: nat

definition initialScheduler :: Scheduler where
  "initialScheduler = \<lparr>animationId = None, pending = [], lastHandle = 0\<rparr>"

definition requestAnimationFrame :: "Scheduler \<Rightarrow> nat \<times> Scheduler" where
  "requestAnimationFrame s =
     (let h = lastHandle s + 1 in (h, s\<lparr>pending := pending s @ [h], lastHandle := h\<rparr>))"

definition cancelAnimationFrame :: "nat \<Rightarrow> Scheduler \<Rightarrow> Scheduler" where
  "cancelAnimationFrame h s = s\<lparr>pending := removeAll h (pending s)\<rparr>"

text \<open>\<open>if (this.animationId)\<close>: \<open>null\<close> and 0 are false.\<close>

definition truthy :: "nat option \<Rightarrow> bool" where
  "truthy v = (case v of None \<Rightarrow> False | Some h \<Rightarrow> h \<noteq> 0)"

definition cancelCurrent :: "Scheduler \<Rightarrow> Scheduler" where
  "cancelCurrent s = (case animationId s of None \<Rightarrow> s | Some h \<Rightarrow> cancelAnimationFrame h s)"

definition startAnimation :: "Scheduler \<Rightarrow> Scheduler" where
  "startAnimation s =
     (let s1 = (if truthy (animationId s) then cancelCurrent s else s);
          (h, s2) = requestAnimationFrame s1
      in s2\<lparr>animationId := Some h\<rparr>)"

definition stopAnimation :: "Scheduler \<Rightarrow> Scheduler" where
  "stopAnimation s =
     (if truthy (animationId s) then (cancelCurrent s)\<lparr>animationId := None\<rparr> else s)"

text \<open>
  The host runs the callback \<open>animate\<close> of handle \<open>h\<close>, if it is pending. The callback
  draws the frame and then requests itself again; \<open>drawn\<close> is false when \<open>renderFrame\<close>
  throws, which ends the callback before the request.
\<close>

definition runFrame :: "nat \<Rightarrow> bool \<Rightarrow> Scheduler \<Rightarrow> Scheduler" where
  "runFrame h drawn s =
     (if h \<in> set (pending s)
      then (let s1 = s\<lparr>pending := removeAll h (pending s)\<rparr>
            in if drawn
               then (let (h', s2) = requestAnimationFrame s1 in s2\<lparr>animationId := Some h'\<rparr>)
               else s1)
      else s)"

datatype event = Start | Stop | Frame nat bool

fun step :: "Scheduler \<Rightarrow> event \<Rightarrow> Scheduler" where
  "step s Start = startAnimation s"
| "step s Stop = stopAnimation s"
| "step s (Frame h drawn) = runFrame h drawn s"

definition run :: "event list \<Rightarrow> Scheduler" where
  "run evs = foldl step initialScheduler evs"

text \<open>
  The invariant of the animation loop: the pending callbacks are none, or the single one
  whose handle is \<open>animationId\<close>; a handle in \<open>animationId\<close> is positive and was given
  out by the host.
\<close>

definition schedulerInv :: "Scheduler \<Rightarrow> bool" where
  "schedulerInv s =
     ((pending s = [] \<or> (\<exists>h. pending s = [h] \<and> animationId s = Some h)) \<and>
      (case animationId s of None \<Rightarrow> True | Some h \<Rightarrow> 0 < h \<and> h \<le> lastHandle s))"

section \<open>Properties of the analyzer\<close>

subsection \<open>Splitting and the scores\<close>

lemma splitPlusFrom_nonempty: "splitPlusFrom sep acc s \<noteq> []"
  by (induction sep acc s rule: splitPlusFrom.induct) auto

lemma splitCharFrom_nonempty: "splitCharFrom sep acc s \<noteq> []"
  by (induction sep acc s rule: splitCharFrom.induct) auto

lemma foldl_add_sum: "foldl (\<lambda>sum v. sum + f v) (a::nat) xs = a + sum_list (map f xs)"
  by (induction xs arbitrary: a) auto

lemma sum_list_ge_one:
  assumes "xs \<noteq> []" and "\<And>v. v \<in> set xs \<Longrightarrow> 1 \<le> f v"
  shows "(1::nat) \<le> sum_list (map f xs)"
  using assms by (cases xs) (auto simp: add_increasing2)

lemma clauseCount_ge_one: "1 \<le> length (splitChar isClauseSep sentence)"
  by (simp add: Suc_le_eq splitChar_def splitCharFrom_nonempty)

lemma sentenceComplexity_ge_one:
  "1 \<le> foldl (\<lambda>sum sentence. sum + length (splitChar isClauseSep sentence)) 0 (splitPlus isSentenceEnd text)"
  unfolding foldl_add_sum add_0
  by (rule sum_list_ge_one)
     (simp_all add: Suc_le_eq splitPlus_def splitPlusFrom_nonempty splitChar_def splitCharFrom_nonempty)

lemma load_sum_ge_one: "0 \<le> a \<Longrightarrow> 0 \<le> b \<Longrightarrow> 1 \<le> c \<Longrightarrow> 1 \<le> a * 10 + b * 2 + (c::real)"
  by linarith

lemma calculateCognitiveLoad_ge_one: "1 \<le> calculateCognitiveLoad text"
proof -
  let ?words = "splitPlus isWhiteSpace text"
  let ?avg = "real (foldl (\<lambda>sum word. sum + length word) 0 ?words) / real (length ?words)"
  let ?cx = "real (length (filter (\<lambda>word. length word > 6) ?words))"
  let ?sc = "foldl (\<lambda>sum sentence. sum + length (splitChar isClauseSep sentence)) 0 (splitPlus isSentenceEnd text)"
  have "0 \<le> ?avg" by simp
  moreover have "0 \<le> ?cx" by simp
  moreover have "1 \<le> real ?sc" using sentenceComplexity_ge_one [of "text"] by linarith
  ultimately have "1 \<le> ?avg * 10 + ?cx * 2 + real ?sc" by (rule load_sum_ge_one)
  then show ?thesis by (simp add: calculateCognitiveLoad_def Let_def)
qed

lemma calculateCognitiveLoad_le: "calculateCognitiveLoad text \<le> 100"
  by (simp add: calculateCognitiveLoad_def Let_def)

lemma calculateEmotionalIntensity_range:
  "0 \<le> calculateEmotionalIntensity text \<and> calculateEmotionalIntensity text \<le> 100"
  by (simp add: calculateEmotionalIntensity_def Let_def)

lemma calculateSymbolicDensity_range:
  "0 \<le> calculateSymbolicDensity text \<and> calculateSymbolicDensity text \<le> 100"
  by (simp add: calculateSymbolicDensity_def Let_def)

lemma calculateTemporalFlow_range:
  "0 \<le> calculateTemporalFlow text \<and> calculateTemporalFlow text \<le> 100"
  by (simp add: calculateTemporalFlow_def Let_def)

lemma emergenceLoop_elem:
  "p \<in> set (emergenceLoop n i ss) \<Longrightarrow> \<exists>j. i \<le> j \<and> j < i + length ss \<and> p = real j / real n * 100"
proof (induction ss arbitrary: i)
  case Nil
  then show ?case by simp
next
  case (Cons s ss)
  from Cons.prems have "p = real i / real n * 100 \<or> p \<in> set (emergenceLoop n (i + 1) ss)"
    by (auto simp: Let_def split: if_splits)
  then show ?case
  proof
    assume "p = real i / real n * 100"
    then show ?thesis by auto
  next
    assume "p \<in> set (emergenceLoop n (i + 1) ss)"
    from Cons.IH [OF this] obtain j where "i + 1 \<le> j" "j < i + 1 + length ss" "p = real j / real n * 100"
      by blast
    then show ?thesis by (intro exI [of _ j]) auto
  qed
qed

lemma emergenceLoop_sorted: "sorted (emergenceLoop n i ss)"
proof (induction ss arbitrary: i)
  case Nil
  then show ?case by simp
next
  case (Cons s ss)
  have "real i / real n * 100 \<le> p" if "p \<in> set (emergenceLoop n (i + 1) ss)" for p
  proof -
    from emergenceLoop_elem [OF that] obtain j where "i + 1 \<le> j" "p = real j / real n * 100"
      by blast
    then show ?thesis by (simp add: divide_right_mono)
  qed
  with Cons.IH [of "i + 1"] show ?case
    by (auto simp: Let_def sorted_append)
qed

lemma emergenceLoop_range:
  assumes "p \<in> set (emergenceLoop n i ss)" and "i + length ss \<le> n"
  shows "0 \<le> p \<and> p \<le> 100"
proof -
  from emergenceLoop_elem [OF assms(1)] obtain j where j: "j < i + length ss" "p = real j / real n * 100"
    by blast
  with assms(2) have "j < n" by simp
  then have "real j / real n \<le> 1" by simp
  then have "real j / real n * 100 \<le> 1 * 100" by (rule mult_right_mono) simp
  with j show ?thesis by simp
qed

lemma findEmergencePoints_sorted: "sorted (findEmergencePoints text)"
  by (simp add: findEmergencePoints_def Let_def emergenceLoop_sorted)

lemma findEmergencePoints_range: "p \<in> set (findEmergencePoints text) \<Longrightarrow> 0 \<le> p \<and> p \<le> 100"
  unfolding findEmergencePoints_def Let_def
  by (rule emergenceLoop_range [where i = 0]) auto

lemma analyzeText_fields:
  "cognitiveLoad (analyzeText pf text) = calculateCognitiveLoad text"
  "emotionalIntensity (analyzeText pf text) = calculateEmotionalIntensity text"
  "symbolicDensity (analyzeText pf text) = calculateSymbolicDensity text"
  "temporalFlow (analyzeText pf text) = calculateTemporalFlow text"
  "emergencePoints (analyzeText pf text) = findEmergencePoints text"
  "meaningSignature (analyzeText pf text) = generateMeaningSignature text"
  "glyphData (analyzeText pf text) =
     generateGlyphData pf (calculateCognitiveLoad text) (calculateEmotionalIntensity text) (calculateSymbolicDensity text)"
  by (simp_all add: analyzeText_def Let_def)

lemma generateGlyphData_frequency: "1 / 2 \<le> frequency (generateGlyphData pf c e s)"
  by (simp add: generateGlyphData_def Let_def)

lemmas scan_defs = matchCount_def countWord_def countMatches.simps matchWords_def matchRun2_def
  matchSymbol_def wordBoundary_def wordCharAt_def matchLiteralCI_def lit_def
  isWordChar_def isWhiteSpace_def isSentenceEnd_def isClauseSep_def isBangOrQuery_def canonicalize_def

lemma emergence_example: "findEmergencePoints (lit ''a. extraordinarily'') = [50]"
  by (simp add: findEmergencePoints_def calculateCognitiveLoad_def calculateEmotionalIntensity_def
      emotionalWords_def intensifiers_def splitPlus_def splitChar_def trim_def scan_defs)

text \<open>
  The scores of three short texts: two whole-word matches of \<open>love\<close>, in either case,
  and one run of marks; two symbols, the comparison word \<open>as\<close> and the abstract word
  \<open>truth\<close>; four words of 16 characters in all and five sentence pieces.
\<close>

lemma emotional_example: "calculateEmotionalIntensity (lit ''Love, love!!'') = 40"
  by (simp add: calculateEmotionalIntensity_def emotionalWords_def intensifiers_def scan_defs)

lemma symbolic_example: "calculateSymbolicDensity (lit ''as if; truth'') = 32"
  by (simp add: calculateSymbolicDensity_def metaphorWords_def abstractWords_def scan_defs)

lemma cognitive_example: "calculateCognitiveLoad (lit ''what?! no!!! yes? ?'') = 45"
  by (simp add: calculateCognitiveLoad_def splitPlus_def splitChar_def scan_defs)

text \<open>
  Claim C1. For every text, the empty one included, the four scores of the analysis are in
  \<open>[0, 100]\<close>, the frequency of the glyph is at least 0.5, and the emergence points
  are in ascending order, each in \<open>[0, 100]\<close>.
\<close>

theorem analyzeText_in_range:
  "0 \<le> cognitiveLoad (analyzeText printFrac text) \<and> cognitiveLoad (analyzeText printFrac text) \<le> 100 \<and>
   0 \<le> emotionalIntensity (analyzeText printFrac text) \<and> emotionalIntensity (analyzeText printFrac text) \<le> 100 \<and>
   0 \<le> symbolicDensity (analyzeText printFrac text) \<and> symbolicDensity (analyzeText printFrac text) \<le> 100 \<and>
   0 \<le> temporalFlow (analyzeText printFrac text) \<and> temporalFlow (analyzeText printFrac text) \<le> 100 \<and>
   0.5 \<le> frequency (glyphData (analyzeText printFrac text)) \<and>
   sorted (emergencePoints (analyzeText printFrac text)) \<and>
   (\<forall>p \<in> set (emergencePoints (analyzeText printFrac text)). 0 \<le> p \<and> p \<le> 100)"
proof -
  have "0 \<le> calculateCognitiveLoad text"
    using calculateCognitiveLoad_ge_one [of "text"] by linarith
  then show ?thesis
    using calculateCognitiveLoad_le [of "text"] calculateEmotionalIntensity_range [of "text"]
      calculateSymbolicDensity_range [of "text"] calculateTemporalFlow_range [of "text"]
      generateGlyphData_frequency findEmergencePoints_sorted [of "text"] findEmergencePoints_range [of _ "text"]
    by (simp add: analyzeText_fields)
qed

theorem analyzeText_in_range_witness:
  "emergencePoints (analyzeText (\<lambda>v. []) (lit ''a. extraordinarily'')) = [50] \<and>
   50 \<in> set (emergencePoints (analyzeText (\<lambda>v. []) (lit ''a. extraordinarily''))) \<and>
   (0::real) \<le> 50 \<and> (50::real) \<le> 100"
  using analyzeText_in_range [of "\<lambda>v. []" "lit ''a. extraordinarily''"] emergence_example
  by (simp add: analyzeText_fields)

text \<open>
  Claim C9. For every text, the empty one included, the cognitive load of the analysis is
  at least 1: the split at the sentence ends has at least one piece, and every piece counts
  at least one clause.
\<close>

theorem cognitiveLoad_at_least_one:
  "splitPlus isSentenceEnd text \<noteq> [] \<and>
   (\<forall>sentence. 1 \<le> length (splitChar isClauseSep sentence)) \<and>
   1 \<le> cognitiveLoad (analyzeText printFrac text)"
proof -
  have "splitPlus isSentenceEnd text \<noteq> []"
    by (simp add: splitPlus_def splitPlusFrom_nonempty)
  moreover have "\<forall>sentence. 1 \<le> length (splitChar isClauseSep sentence)"
    using clauseCount_ge_one by blast
  moreover have "1 \<le> cognitiveLoad (analyzeText printFrac text)"
    by (simp only: analyzeText_fields calculateCognitiveLoad_ge_one)
  ultimately show ?thesis by blast
qed

subsection \<open>The analysis of the empty text\<close>

lemma empty_cognitive: "calculateCognitiveLoad [] = 1"
  by (simp add: calculateCognitiveLoad_def splitPlus_def splitChar_def)

lemma empty_emotional: "calculateEmotionalIntensity [] = 0"
  by (simp add: calculateEmotionalIntensity_def emotionalWords_def intensifiers_def scan_defs)

lemma empty_symbolic: "calculateSymbolicDensity [] = 0"
  by (simp add: calculateSymbolicDensity_def metaphorWords_def abstractWords_def scan_defs)

lemma empty_temporal: "calculateTemporalFlow [] = 0"
  by (simp add: calculateTemporalFlow_def timeWords_def transitionWords_def scan_defs)

lemma empty_emergence: "findEmergencePoints [] = []"
  by (simp add: findEmergencePoints_def splitPlus_def trim_def)

lemma empty_signature:
  "generateMeaningSignature [] =
     lit ''The Seeker resonance with neutral undertones, exploring themes of existence''"
  by (simp add: generateMeaningSignature_def extractThemes_def extractMood_def extractArchetype_def
      themeKeywords_def moodKeywords_def archetypes_def hasKeyword_def toLowerCase_def lowerUnit_def lit_def)

lemma empty_glyph:
  "generateGlyphData printFrac 1 0 0 =
     \<lparr>shape = Some (lit ''circle''), frequency = 0.5, color = lit ''hsl(1, 50%, 70%)'', complexity = 0\<rparr>"
  by (simp add: generateGlyphData_def generateGlyphColor_def shapes_def jsRem_def arrayGet_def
      numToString_def intToString_def digitsOf.simps lit_def)

text \<open>
  Claim C2, as the code has it. The analysis of the empty text is computed like any other
  and is not the default analysis: the cognitive load is 1, the other three scores are 0,
  there is no emergence point, the signature is the one of the first archetype with the
  neutral mood and the theme \<open>existence\<close>, and the glyph is a circle of frequency 0.5,
  colour \<open>hsl(1, 50%, 70%)\<close> and complexity 0.
\<close>

theorem analyzeText_empty:
  "analyzeText printFrac [] =
     \<lparr>cognitiveLoad = 1, emotionalIntensity = 0, symbolicDensity = 0, temporalFlow = 0,
      emergencePoints = [],
      meaningSignature = lit ''The Seeker resonance with neutral undertones, exploring themes of existence'',
      glyphData = \<lparr>shape = Some (lit ''circle''), frequency = 0.5, color = lit ''hsl(1, 50%, 70%)'',
                    complexity = 0\<rparr>\<rparr>"
  by (simp add: analyzeText_def Let_def empty_cognitive empty_emotional empty_symbolic empty_temporal
      empty_emergence empty_signature empty_glyph)

text \<open>
  Claim C2 as stated fails: whatever prints the fractions, the analysis of the empty text
  differs from the default analysis, already in the cognitive load (1 against 50).
\<close>

theorem analyzeText_empty_not_default:
  "\<forall>printFrac. analyzeText printFrac [] \<noteq> getDefaultAnalysis"
proof
  fix printFrac
  have "cognitiveLoad (analyzeText printFrac []) = 1"
    by (simp add: analyzeText_fields empty_cognitive)
  moreover have "cognitiveLoad getDefaultAnalysis = 50"
    by (simp add: getDefaultAnalysis_def)
  ultimately show "analyzeText printFrac [] \<noteq> getDefaultAnalysis"
    by auto
qed

subsection \<open>The glyph mapping\<close>

lemma jsRem_nonneg: "0 \<le> a \<Longrightarrow> 0 < b \<Longrightarrow> jsRem a b = a mod b"
  by (cases "a = 0") (simp_all add: jsRem_def)

text \<open>
  Claim C6. For scores in \<open>[0, 100]\<close> the shape of the glyph is the entry of the list
  circle, triangle, square, hexagon, star, spiral at index
  \<open>floor((cognitive + emotional) / 33) mod 6\<close>, the frequency is
  \<open>max(0.5, emotional / 100)\<close> and the complexity is \<open>floor((cognitive + symbolic) / 20)\<close>.
\<close>

theorem generateGlyphData_mapping:
  assumes "0 \<le> cognitive" "cognitive \<le> 100" "0 \<le> emotional" "emotional \<le> 100"
    "0 \<le> symbolic" "symbolic \<le> 100"
  shows "shape (generateGlyphData printFrac cognitive emotional symbolic) =
           Some (lit ([''circle'', ''triangle'', ''square'', ''hexagon'', ''star'', ''spiral'']
                       ! nat (\<lfloor>(cognitive + emotional) / 33\<rfloor> mod 6))) \<and>
         frequency (generateGlyphData printFrac cognitive emotional symbolic) = max 0.5 (emotional / 100) \<and>
         complexity (generateGlyphData printFrac cognitive emotional symbolic) = \<lfloor>(cognitive + symbolic) / 20\<rfloor>"
proof -
  have "0 \<le> \<lfloor>(cognitive + emotional) / 33\<rfloor>"
    using assms by simp
  then have rem: "jsRem \<lfloor>(cognitive + emotional) / 33\<rfloor> 6 = \<lfloor>(cognitive + emotional) / 33\<rfloor> mod 6"
    by (simp add: jsRem_nonneg)
  have "0 \<le> \<lfloor>(cognitive + emotional) / 33\<rfloor> mod 6" "\<lfloor>(cognitive + emotional) / 33\<rfloor> mod 6 < 6"
    by simp_all
  then show ?thesis
    by (simp add: generateGlyphData_def Let_def shapes_def rem arrayGet_def)
qed

theorem generateGlyphData_mapping_witness:
  "(0::real) \<le> 50 \<and> (50::real) \<le> 100 \<and> (0::real) \<le> 30 \<and> (30::real) \<le> 100 \<and>
   (0::real) \<le> 40 \<and> (40::real) \<le> 100 \<and>
   shape (generateGlyphData (\<lambda>v. []) 50 30 40) = Some (lit ''square'') \<and>
   frequency (generateGlyphData (\<lambda>v. []) 50 30 40) = 0.5 \<and>
   complexity (generateGlyphData (\<lambda>v. []) 50 30 40) = 4"
  using generateGlyphData_mapping [of 50 30 40 "\<lambda>v. []"]
  by simp

section \<open>Properties of the colour conversion\<close>

lemma slice_hsl_1: "slice (lit ''hsl('' @ rest) 1 3 = [115, 108]"
  by (simp add: slice_def lit_def)

lemma slice_hsl_3: "slice (lit ''hsl('' @ rest) 3 5 = 40 # take 1 rest"
  by (simp add: slice_def lit_def)

lemma parseInt16_sl: "parseInt16 [115, 108] = None"
  by (simp add: parseInt16_def isWhiteSpace_def hexDigit_def)

lemma parseInt16_paren: "parseInt16 (40 # rest) = None"
  by (simp add: parseInt16_def isWhiteSpace_def hexDigit_def)

lemma hexToRgba_hsl:
  "\<exists>tail. hexToRgba printFrac (lit ''hsl('' @ rest) alpha = lit ''rgba(NaN, NaN, '' @ tail"
proof -
  have "hexToRgba printFrac (lit ''hsl('' @ rest) alpha =
          lit ''rgba('' @ lit ''NaN'' @ lit '', '' @ lit ''NaN'' @ lit '', ''
          @ numberOrNaN (parseInt16 (slice (lit ''hsl('' @ rest) 5 7))
          @ lit '', '' @ numToString printFrac alpha @ lit '')''"
    by (simp only: hexToRgba_def Let_def slice_hsl_1 slice_hsl_3 parseInt16_sl parseInt16_paren
        numberOrNaN_def option.case)
  then show ?thesis
    by (simp add: lit_def)
qed

lemma hexToRgba_hex_example: "hexToRgba printFrac (lit ''#8b5cf6'') 1 = lit ''rgba(139, 92, 246, 1)''"
  by (simp add: hexToRgba_def slice_def parseInt16_def isWhiteSpace_def hexDigit_def hexValue_def
      numberOrNaN_def lit_def numToString_def intToString_def digitsOf.simps)

text \<open>
  The conversion has no branch for a string that is not a hexadecimal colour: a pair of
  characters that begins with no hexadecimal number becomes the component \<open>NaN\<close>.
\<close>

lemma parseInt16_not_number:
  assumes "\<not> isWhiteSpace c" "c \<noteq> 43" "c \<noteq> 45" "hexDigit c = None"
  shows "parseInt16 (c # rest) = None"
proof -
  from assms(4) have "c \<noteq> 48"
    by (auto simp: hexDigit_def)
  with assms show ?thesis
    by (simp add: parseInt16_def)
qed

lemma hexToRgba_malformed_example:
  "hexToRgba printFrac (lit ''#zzzzzz'') 1 = lit ''rgba(NaN, NaN, NaN, 1)''"
  by (simp add: hexToRgba_def slice_def parseInt16_def isWhiteSpace_def hexDigit_def
      numberOrNaN_def lit_def numToString_def intToString_def digitsOf.simps)

text \<open>
  The analyzer writes every glyph colour as \<open>hsl(...)\<close>, and the renderer and the
  particles pass it to \<open>hexToRgba\<close>: whatever the scores, the red and the green
  component are \<open>NaN\<close>.
\<close>

lemma hexToRgba_of_glyph_color:
  "\<exists>tail. hexToRgba printFrac (generateGlyphColor printFrac cognitive emotional symbolic) alpha
           = lit ''rgba(NaN, NaN, '' @ tail"
  unfolding generateGlyphColor_def Let_def by (rule hexToRgba_hsl)

text \<open>
  Claim C5 (the conversion of a malformed colour string, and of the glyph colour of the
  analyzer in particular, is a fixed neutral colour and no invalid colour value) against
  the code: the glyph colour of the analysis of the empty text is \<open>hsl(1, 50%, 70%)\<close>,
  and its conversion at opacity 1 is \<open>rgba(NaN, NaN, NaN, 1)\<close>, which is no colour
  value. The colours written as \<open>#rrggbb\<close> elsewhere in the source convert as they
  should.
\<close>

theorem hexToRgba_empty_text_color:
  "\<forall>printFrac. hexToRgba printFrac (color (glyphData (analyzeText printFrac []))) 1
      = lit ''rgba(NaN, NaN, NaN, 1)''"
  by (simp add: analyzeText_fields empty_cognitive empty_emotional empty_symbolic empty_glyph
     hexToRgba_def slice_def parseInt16_def isWhiteSpace_def hexDigit_def numberOrNaN_def lit_def
     numToString_def intToString_def digitsOf.simps)

section \<open>Properties of the scalar field\<close>

lemma field_resize:
  "field (resize rf w h) = replicate (nat \<lceil>h / 20\<rceil>) (replicate (nat \<lceil>w / 20\<rceil>) 0)"
  by (simp add: resize_def initializeField_def gridSize_def)

lemma update_no_rows: "field rf = [] \<Longrightarrow> update rf analysis time = Inl TypeError"
  by (simp add: update_def)

lemma update_rows:
  assumes "field rf = row0 # rest" and "\<forall>row \<in> set (field rf). length row = length row0"
  shows "\<exists>rf'. update rf analysis time = Inr rf' \<and> length (field rf') = length (field rf) \<and>
           (\<forall>row \<in> set (field rf'). length row = length row0)"
proof -
  let ?new = "map (\<lambda>i. map (\<lambda>j. cellValue analysis time (real (length row0) / 2)
                          (real (length (field rf)) / 2) i j) [0..<length row0]
                    @ drop (length row0) (field rf ! i))
              [0..<length (field rf)]"
  have upd: "update rf analysis time = Inr (rf\<lparr>field := ?new\<rparr>)"
    unfolding update_def Let_def by (simp only: assms(1) list.case)
  have "length row = length row0" if "row \<in> set ?new" for row
  proof -
    from that obtain i where i: "i < length (field rf)"
      and row: "row = map (\<lambda>j. cellValue analysis time (real (length row0) / 2)
                          (real (length (field rf)) / 2) i j) [0..<length row0]
                    @ drop (length row0) (field rf ! i)"
      by auto
    from i assms(2) have "length (field rf ! i) = length row0"
      using nth_mem by blast
    with row show ?thesis by simp
  qed
  then have all: "\<forall>row \<in> set ?new. length row = length row0"
    by blast
  have fld: "field (rf\<lparr>field := ?new\<rparr>) = ?new"
    by simp
  show ?thesis
  proof (intro exI conjI)
    show "update rf analysis time = Inr (rf\<lparr>field := ?new\<rparr>)"
      by (rule upd)
    show "length (field (rf\<lparr>field := ?new\<rparr>)) = length (field rf)"
      unfolding fld by simp
    show "\<forall>row \<in> set (field (rf\<lparr>field := ?new\<rparr>)). length row = length row0"
      unfolding fld by (rule all)
  qed
qed

lemma update_empty_rows:
  assumes "0 < n"
  shows "update (rf\<lparr>field := replicate n []\<rparr>) analysis time = Inr (rf\<lparr>field := replicate n []\<rparr>)"
proof -
  from assms obtain m where n: "n = Suc m" by (cases n) auto
  have "map (\<lambda>i. drop 0 (replicate n ([]::real list) ! i)) [0..<n] = replicate n []"
    by (auto simp: list_eq_iff_nth_eq)
  then show ?thesis
    by (simp add: update_def n)
qed

lemma resize_height_nonpos: "h \<le> 0 \<Longrightarrow> field (resize rf w h) = []"
proof -
  assume "h \<le> 0"
  then have "\<lceil>h / 20\<rceil> \<le> 0" by (simp add: ceiling_le_iff)
  then show ?thesis by (simp add: field_resize)
qed

lemma resize_height_pos: "0 < h \<Longrightarrow> 0 < nat \<lceil>h / 20\<rceil>"
  by (simp add: less_ceiling_iff)

text \<open>
  Claim C7, as the code has it. For every width that is not negative and every positive
  height, \<open>resize\<close> rebuilds the grid to \<open>ceil(height / 20)\<close> rows of
  \<open>ceil(width / 20)\<close> cells, every cell 0, and the next \<open>update\<close> returns with a grid
  of these dimensions. (Neither \<open>resize\<close> nor \<open>initializeField\<close> has an error result:
  they never throw.)
\<close>

theorem resize_then_update:
  assumes "0 \<le> w" and "0 < h"
  shows "field (resize rf w h) = replicate (nat \<lceil>h / 20\<rceil>) (replicate (nat \<lceil>w / 20\<rceil>) 0) \<and>
         int (nat \<lceil>h / 20\<rceil>) = \<lceil>h / 20\<rceil> \<and> int (nat \<lceil>w / 20\<rceil>) = \<lceil>w / 20\<rceil> \<and>
         (\<exists>rf'. update (resize rf w h) analysis time = Inr rf' \<and>
                length (field rf') = nat \<lceil>h / 20\<rceil> \<and>
                (\<forall>row \<in> set (field rf'). length row = nat \<lceil>w / 20\<rceil>))"
proof -
  let ?rows = "nat \<lceil>h / 20\<rceil>" and ?cols = "nat \<lceil>w / 20\<rceil>"
  have f: "field (resize rf w h) = replicate ?rows (replicate ?cols 0)"
    by (rule field_resize)
  have rows: "0 < ?rows" using assms(2) by (rule resize_height_pos)
  then obtain m where m: "?rows = Suc m" by (cases ?rows) auto
  have "0 \<le> \<lceil>h / 20\<rceil>" "0 \<le> \<lceil>w / 20\<rceil>"
    using assms by (simp_all add: le_ceiling_iff less_ceiling_iff)
  then have ints: "int ?rows = \<lceil>h / 20\<rceil>" "int ?cols = \<lceil>w / 20\<rceil>" by simp_all
  have "field (resize rf w h) = replicate ?cols 0 # replicate m (replicate ?cols 0)"
    by (simp add: f m)
  moreover have "\<forall>row \<in> set (field (resize rf w h)). length row = length (replicate ?cols (0::real))"
    by (simp add: f)
  ultimately obtain rf' where "update (resize rf w h) analysis time = Inr rf'"
    "length (field rf') = length (field (resize rf w h))"
    "\<forall>row \<in> set (field rf'). length row = length (replicate ?cols (0::real))"
    using update_rows [of "resize rf w h" "replicate ?cols 0" "replicate m (replicate ?cols 0)" analysis time]
    by blast
  then have "update (resize rf w h) analysis time = Inr rf' \<and> length (field rf') = ?rows \<and>
      (\<forall>row \<in> set (field rf'). length row = ?cols)"
    by (simp add: f)
  then show ?thesis using f ints by blast
qed

theorem resize_then_update_witness:
  "(0::real) \<le> 800 \<and> (0::real) < 600 \<and>
   field (resize (newResonanceField 400 400) 800 600) = replicate 30 (replicate 40 0) \<and>
   (\<exists>rf'. update (resize (newResonanceField 400 400) 800 600) getDefaultAnalysis 0 = Inr rf' \<and>
          length (field rf') = 30)"
  using resize_then_update [of 800 600 "newResonanceField 400 400" getDefaultAnalysis 0]
  by auto

text \<open>
  Claim C7 as stated fails for the height 0: after \<open>resize(0, 0)\<close> the grid has no row
  and the next \<open>update\<close> throws.
\<close>

theorem update_after_resize_to_zero:
  "update (resize (newResonanceField 400 400) 0 0) getDefaultAnalysis 0 = Inl TypeError"
  by (simp add: update_no_rows field_resize)

text \<open>
  Claim C10, as the code has it. When the field is resized with a height of 0 (or less),
  whatever the width, the grid has no row and the next \<open>update\<close> throws a
  \<open>TypeError\<close>. When it is resized with the width 0 and a positive height, the grid
  has \<open>ceil(height / 20)\<close> empty rows and the next \<open>update\<close> returns, leaving the
  field as it is.
\<close>

theorem update_after_resize_throws:
  "(h \<le> 0 \<longrightarrow> update (resize rf w h) analysis time = Inl TypeError) \<and>
   (0 < h \<longrightarrow> field (resize rf 0 h) = replicate (nat \<lceil>h / 20\<rceil>) [] \<and> 0 < nat \<lceil>h / 20\<rceil> \<and>
              update (resize rf 0 h) analysis time = Inr (resize rf 0 h))"
proof (intro conjI impI)
  assume "h \<le> 0"
  then show "update (resize rf w h) analysis time = Inl TypeError"
    by (simp add: update_no_rows resize_height_nonpos)
next
  show "field (resize rf 0 h) = replicate (nat \<lceil>h / 20\<rceil>) []"
    by (simp add: field_resize)
next
  assume "0 < h"
  then show "0 < nat \<lceil>h / 20\<rceil>" by (rule resize_height_pos)
next
  assume "0 < h"
  then have "0 < nat \<lceil>h / 20\<rceil>" by (rule resize_height_pos)
  from update_empty_rows [OF this, of "rf\<lparr>width := 0, height := h\<rparr>" analysis time]
  show "update (resize rf 0 h) analysis time = Inr (resize rf 0 h)"
    by (simp add: resize_def initializeField_def gridSize_def)
qed

theorem update_after_resize_throws_witness:
  "(0::real) \<le> 0 \<and> update (resize (newResonanceField 400 400) 400 0) getDefaultAnalysis 0 = Inl TypeError \<and>
   (0::real) < 400 \<and> field (resize (newResonanceField 400 400) 0 400) = replicate 20 []"
  using update_after_resize_throws [of 0 "newResonanceField 400 400" 400 getDefaultAnalysis 0]
        update_after_resize_throws [of 400 "newResonanceField 400 400" 400 getDefaultAnalysis 0]
  by simp

text \<open>
  Claim C10 as stated fails for the width 0 with a positive height: after
  \<open>resize(0, 400)\<close> the grid has 20 empty rows, and the next \<open>update\<close> does not throw.
\<close>

theorem update_after_resize_width_zero:
  "update (resize (newResonanceField 400 400) 0 400) getDefaultAnalysis 0
     = Inr (resize (newResonanceField 400 400) 0 400)"
  using update_empty_rows [of 20 "newResonanceField 400 400\<lparr>width := 0, height := 400\<rparr>" getDefaultAnalysis 0]
  by (simp add: resize_def initializeField_def gridSize_def)

text \<open>
  Claim C8 (every cell of the grid whose opacity exceeds 0.05 is painted) against the code:
  on a grid of two rows and two columns whose four cells hold 0.5, of opacity 0.25 each,
  \<open>render\<close> paints the cell of row 0 and column 0 only. The cells of the last row and
  of the last column are never looked at.
\<close>

theorem render_skips_last_row_and_column:
  "render \<lparr>width = 40, height = 40, field = [[1/2, 1/2], [1/2, 1/2]]\<rparr> = Inr [FillRect 0 0 20 20 (1/4)]"
  by (simp add: render_def renderCell_def gridSize_def)

lemma render_single_cell:
  "render \<lparr>width = 20, height = 20, field = [[1/2]]\<rparr> = Inr []"
  by (simp add: render_def)

section \<open>Properties of the particles\<close>

lemma updateParticle_respawn_life:
  "life p \<le> 1 \<Longrightarrow> life (fst (updateParticle rnd k cx cy f t p)) = maxLife p \<and>
     px (fst (updateParticle rnd k cx cy f t p)) = rnd k * 800 \<and>
     py (fst (updateParticle rnd k cx cy f t p)) = rnd (k + 1) * 600"
  by (simp add: updateParticle_def respawn_def Let_def)

lemma updateAndRenderParticles_example:
  "fst (updateAndRenderParticles (\<lambda>n. 9 / 10) 0 400 400 getDefaultAnalysis 0
          [\<lparr>px = 100, py = 100, pvx = 0, pvy = 0, pcolor = lit ''#8b5cf6'', psize = 2,
           life = 1, maxLife = 60\<rparr>])
     = [\<lparr>px = 720, py = 540, pvx = 4 / 5, pvy = 4 / 5, pcolor = lit ''#8b5cf6'', psize = 2,
        life = 60, maxLife = 60\<rparr>]"
  by (simp add: updateAndRenderParticles_def updateParticle_def respawn_def Let_def getDefaultAnalysis_def)

lemma newParticle_in_canvas:
  assumes "0 \<le> rnd k" "rnd k < 1" "0 \<le> rnd (k + 1)" "rnd (k + 1) < 1" "0 < w" "0 < h"
  shows "0 \<le> px (fst (newParticle rnd (k + 2) (rnd k * w) (rnd (k + 1) * h) c)) \<and>
         px (fst (newParticle rnd (k + 2) (rnd k * w) (rnd (k + 1) * h) c)) < w \<and>
         0 \<le> py (fst (newParticle rnd (k + 2) (rnd k * w) (rnd (k + 1) * h) c)) \<and>
         py (fst (newParticle rnd (k + 2) (rnd k * w) (rnd (k + 1) * h) c)) < h"
  using assms by (simp add: newParticle_def Let_def)

text \<open>
  Claim C3 (a particle whose life reaches 0 is respawned inside the current canvas) against
  the code: on a canvas of 400 by 400, whose centre is (200, 200), a particle with one tick
  of life left is respawned, when the random numbers are 0.9, at (720, 540), outside the
  canvas. Its life is its \<open>maxLife\<close> again.
\<close>

theorem respawn_outside_canvas:
  "fst (updateParticle (\<lambda>n. 9 / 10) 0 200 200 (1 / 2) 0
          \<lparr>px = 100, py = 100, pvx = 0, pvy = 0, pcolor = lit ''hsl(1, 50%, 70%)'', psize = 2,
           life = 1, maxLife = 60\<rparr>)
     = \<lparr>px = 720, py = 540, pvx = 4 / 5, pvy = 4 / 5, pcolor = lit ''hsl(1, 50%, 70%)'', psize = 2,
        life = 60, maxLife = 60\<rparr>
   \<and> \<not> (720 \<le> (400::real)) \<and> \<not> (540 \<le> (400::real))"
  by (simp add: updateParticle_def respawn_def Let_def)

section \<open>Properties of the animation loop\<close>

lemma schedulerInv_initial: "schedulerInv initialScheduler"
  by (simp add: schedulerInv_def initialScheduler_def)

lemma schedulerInv_start: "schedulerInv s \<Longrightarrow> schedulerInv (startAnimation s)"
  by (cases "animationId s")
     (auto simp: schedulerInv_def startAnimation_def truthy_def cancelCurrent_def
        cancelAnimationFrame_def requestAnimationFrame_def Let_def)

lemma schedulerInv_stop: "schedulerInv s \<Longrightarrow> schedulerInv (stopAnimation s)"
  by (cases "animationId s")
     (auto simp: schedulerInv_def stopAnimation_def truthy_def cancelCurrent_def
        cancelAnimationFrame_def)

lemma schedulerInv_frame: "schedulerInv s \<Longrightarrow> schedulerInv (runFrame h drawn s)"
  by (cases "animationId s")
     (auto simp: schedulerInv_def runFrame_def requestAnimationFrame_def Let_def)

lemma schedulerInv_step: "schedulerInv s \<Longrightarrow> schedulerInv (step s e)"
  by (cases e) (simp_all add: schedulerInv_start schedulerInv_stop schedulerInv_frame)

lemma schedulerInv_run: "schedulerInv (run evs)"
  unfolding run_def
  by (induction evs rule: rev_induct) (simp_all add: schedulerInv_initial schedulerInv_step)

lemma schedulerInv_pending: "schedulerInv s \<Longrightarrow> length (pending s) \<le> 1"
  by (auto simp: schedulerInv_def)

lemma start_pending:
  "schedulerInv s \<Longrightarrow> pending (startAnimation s) = [lastHandle s + 1] \<and>
     animationId (startAnimation s) = Some (lastHandle s + 1)"
  by (cases "animationId s")
     (auto simp: schedulerInv_def startAnimation_def truthy_def cancelCurrent_def
        cancelAnimationFrame_def requestAnimationFrame_def Let_def)

lemma stop_pending: "schedulerInv s \<Longrightarrow> pending (stopAnimation s) = []"
  by (cases "animationId s")
     (auto simp: schedulerInv_def stopAnimation_def truthy_def cancelCurrent_def
        cancelAnimationFrame_def)

lemma stop_idempotent: "stopAnimation (stopAnimation s) = stopAnimation s"
  by (simp add: stopAnimation_def truthy_def)

text \<open>
  Claim C4. After every sequence of starts, stops and frames at most one callback is
  pending. A start leaves exactly one pending, which is not the one of the handle held
  before: that one is cancelled. A stop leaves none pending, and a second stop changes
  nothing.
\<close>

theorem at_most_one_callback:
  "length (pending (run evs)) \<le> 1 \<and>
   length (pending (startAnimation (run evs))) = 1 \<and>
   (\<forall>h. animationId (run evs) = Some h \<longrightarrow> h \<notin> set (pending (startAnimation (run evs)))) \<and>
   pending (stopAnimation (run evs)) = [] \<and>
   stopAnimation (stopAnimation (run evs)) = stopAnimation (run evs)"
proof -
  have inv: "schedulerInv (run evs)" by (rule schedulerInv_run)
  have "\<forall>h. animationId (run evs) = Some h \<longrightarrow> h \<notin> set (pending (startAnimation (run evs)))"
    using inv start_pending [OF inv] by (auto simp: schedulerInv_def)
  then show ?thesis
    using schedulerInv_pending [OF inv] start_pending [OF inv] stop_pending [OF inv] stop_idempotent
    by simp
qed

lemmas sched_defs = run_def initialScheduler_def startAnimation_def stopAnimation_def runFrame_def
  truthy_def cancelCurrent_def cancelAnimationFrame_def requestAnimationFrame_def Let_def

lemma run_start: "run [Start] = \<lparr>animationId = Some 1, pending = [1], lastHandle = 1\<rparr>"
  by (simp add: sched_defs)

theorem at_most_one_callback_witness:
  "animationId (run [Start]) = Some 1 \<and> pending (run [Start]) = [1] \<and>
   1 \<notin> set (pending (startAnimation (run [Start]))) \<and>
   pending (startAnimation (run [Start])) = [2]"
  using at_most_one_callback [of "[Start]"] run_start
  by (simp add: sched_defs)

lemma run_example:
  "run [Start, Frame 1 True, Start, Stop, Stop, Frame 3 True] = \<lparr>animationId = None, pending = [], lastHandle = 3\<rparr>"
  by (simp add: sched_defs)

end
